theory Spec2Isabelle
  imports Complex_Main "HOL-Library.Char_ord" "HOL-Library.List_Lexorder"
begin

section \<open>Python values and exceptions\<close>

text \<open>
  The storage classes of \<^verbatim>\<open>label_studio/io_storages/aperturedb/models.py\<close> work on
  untyped JSON: store responses, annotation-result fragments and query documents.
  \<^item> \<open>JNull\<close> is Python's \<^verbatim>\<open>None\<close>.
  \<^item> \<open>JNum\<close> is a Python number. \<^verbatim>\<open>int\<close> and \<^verbatim>\<open>float\<close> compare by exact value in
    Python (\<^verbatim>\<open>800 == 800.0\<close>), so both are one rational here. What is idealised is
    the rounding of float arithmetic: \<open>*\<close> and \<open>/\<close> are exact.
  \<^item> \<open>JDict\<close> is a dict as an association list in insertion order, with distinct keys.
  \<^item> \<open>JBool\<close> is \<^verbatim>\<open>True\<close> or \<^verbatim>\<open>False\<close>, which Python counts as the integers 1 and 0
    in arithmetic, comparisons and as keys.
\<close>

datatype json =
    JNull
  | JBool bool
  | JNum rat
  | JStr string
  | JList "json list"
  | JDict "(string \<times> json) list"

text \<open>
  Every \<^verbatim>\<open>raise\<close> of the source, and every exception of a Python builtin it calls, is
  a value. The message of a \<open>ValueError\<close> is the source's text without what it appends
  after a colon: the two values that differ, the joined labels, the last response of
  the store.
\<close>

datatype error =
    ValueError string
  | TypeError
  | KeyError
  | IndexError
  | AttributeError
  | StopIteration
  | ZeroDivisionError

text \<open>The value of a number or a boolean; nothing else is numeric.\<close>

fun as_num :: "json \<Rightarrow> rat option" where
  "as_num (JNum r) = Some r"
| "as_num (JBool b) = Some (if b then 1 else 0)"
| "as_num v = None"

text \<open>
  \<^verbatim>\<open>a == b\<close>: numbers and booleans by value, the rest structurally, blind to the
  order of a dict's keys.
\<close>

fun py_eq :: "json \<Rightarrow> json \<Rightarrow> bool" where
  "py_eq (JList xs) (JList ys) = list_all2 py_eq xs ys"
| "py_eq (JDict a) (JDict b) =
     (length a = length b \<and>
      list_all (\<lambda>p. case map_of b (fst p) of None \<Rightarrow> False | Some w \<Rightarrow> py_eq (snd p) w) a)"
| "py_eq v w =
     (case (as_num v, as_num w) of
        (Some a, Some b) \<Rightarrow> a = b
      | _ \<Rightarrow> v = w)"

text \<open>
  \<^verbatim>\<open>a > b\<close>: numbers by value, strings and lists lexicographically; \<^verbatim>\<open>None\<close>, dicts
  and mixed types are not orderable.
\<close>

fun py_gt :: "json \<Rightarrow> json \<Rightarrow> error + bool"
  and py_gt_list :: "json list \<Rightarrow> json list \<Rightarrow> error + bool" where
  "py_gt (JStr a) (JStr b) = Inr (b < a)"
| "py_gt (JList a) (JList b) = py_gt_list a b"
| "py_gt v w =
     (case (as_num v, as_num w) of
        (Some a, Some b) \<Rightarrow> Inr (b < a)
      | _ \<Rightarrow> Inl TypeError)"
| "py_gt_list [] _ = Inr False"
| "py_gt_list (v # vs) [] = Inr True"
| "py_gt_list (v # vs) (w # ws) = (if py_eq v w then py_gt_list vs ws else py_gt v w)"

text \<open>
  \<^verbatim>\<open>max(xs)\<close>: \<open>ValueError\<close> on the empty list; otherwise the first element is the
  candidate and a later element replaces it when it is greater.
\<close>

fun max_loop :: "json \<Rightarrow> json list \<Rightarrow> error + json" where
  "max_loop m [] = Inr m"
| "max_loop m (v # vs) =
     (case py_gt v m of
        Inl e \<Rightarrow> Inl e
      | Inr b \<Rightarrow> max_loop (if b then v else m) vs)"

fun py_max :: "json list \<Rightarrow> error + json" where
  "py_max [] = Inl (ValueError ''max() arg is an empty sequence'')"
| "py_max (v # vs) = max_loop v vs"

text \<open>A list comprehension over fallible calls: the first exception ends it.\<close>

fun sequence :: "(error + 'a) list \<Rightarrow> error + 'a list" where
  "sequence [] = Inr []"
| "sequence (r # rs) =
     (case r of
        Inl e \<Rightarrow> Inl e
      | Inr v \<Rightarrow> (case sequence rs of Inl e \<Rightarrow> Inl e | Inr vs \<Rightarrow> Inr (v # vs)))"

fun startswith :: "string \<Rightarrow> string \<Rightarrow> bool" where
  "startswith s [] = True"
| "startswith [] (p # ps) = False"
| "startswith (c # cs) (p # ps) = (c = p \<and> startswith cs ps)"

fun is_substring :: "string \<Rightarrow> string \<Rightarrow> bool" where
  "is_substring k [] = (k = [])"
| "is_substring k (c # cs) = (startswith (c # cs) k \<or> is_substring k cs)"

text \<open>\<^verbatim>\<open>k in obj\<close> for a string \<open>k\<close>.\<close>

fun py_in :: "string \<Rightarrow> json \<Rightarrow> error + bool" where
  "py_in k (JDict d) = Inr (k \<in> fst ` set d)"
| "py_in k (JStr s) = Inr (is_substring k s)"
| "py_in k (JList vs) = Inr (JStr k \<in> set vs)"
| "py_in k _ = Inl TypeError"

text \<open>\<^verbatim>\<open>obj[k]\<close> for a string \<open>k\<close>, and \<^verbatim>\<open>obj[0]\<close>.\<close>

fun py_getitem :: "json \<Rightarrow> string \<Rightarrow> error + json" where
  "py_getitem (JDict d) k = (case map_of d k of None \<Rightarrow> Inl KeyError | Some v \<Rightarrow> Inr v)"
| "py_getitem _ k = Inl TypeError"

fun py_getindex :: "json \<Rightarrow> nat \<Rightarrow> error + json" where
  "py_getindex (JList vs) i = (if i < length vs then Inr (vs ! i) else Inl IndexError)"
| "py_getindex (JStr s) i = (if i < length s then Inr (JStr [s ! i]) else Inl IndexError)"
| "py_getindex (JDict d) i = Inl KeyError"
| "py_getindex _ i = Inl TypeError"

text \<open>\<^verbatim>\<open>for v in obj\<close>: the elements of a list, the characters of a string, the keys of a dict.\<close>

fun py_iter :: "json \<Rightarrow> error + json list" where
  "py_iter (JList vs) = Inr vs"
| "py_iter (JStr s) = Inr (map (\<lambda>c. JStr [c]) s)"
| "py_iter (JDict d) = Inr (map (\<lambda>p. JStr (fst p)) d)"
| "py_iter _ = Inl TypeError"

fun py_len :: "json \<Rightarrow> error + nat" where
  "py_len (JList vs) = Inr (length vs)"
| "py_len (JStr s) = Inr (length s)"
| "py_len (JDict d) = Inr (length d)"
| "py_len _ = Inl TypeError"

text \<open>\<^verbatim>\<open>a.extend(b)\<close>: only a list has the method; \<open>b\<close> is any iterable.\<close>

fun py_extend :: "json \<Rightarrow> json \<Rightarrow> error + json" where
  "py_extend (JList vs) b = (case py_iter b of Inl e \<Rightarrow> Inl e | Inr ws \<Rightarrow> Inr (JList (vs @ ws)))"
| "py_extend _ b = Inl AttributeError"

text \<open>\<^verbatim>\<open>','.join(obj)\<close> succeeds on an iterable of strings only.\<close>

fun join_ok :: "json \<Rightarrow> bool" where
  "join_ok (JList vs) = list_all (\<lambda>v. case v of JStr s \<Rightarrow> True | _ \<Rightarrow> False) vs"
| "join_ok (JStr s) = True"
| "join_ok (JDict d) = True"
| "join_ok _ = False"

text \<open>Lists and dicts cannot be keys of a dict or members of a set.\<close>

fun hashable :: "json \<Rightarrow> bool" where
  "hashable (JList vs) = False"
| "hashable (JDict d) = False"
| "hashable _ = True"

text \<open>\<^verbatim>\<open>int(r)\<close> of a float truncates toward zero.\<close>

definition py_int :: "rat \<Rightarrow> int" where
  "py_int r = (if r < 0 then - \<lfloor>- r\<rfloor> else \<lfloor>r\<rfloor>)"

text \<open>
  \<^verbatim>\<open>d[k] = v\<close>, \<^verbatim>\<open>d.update(u)\<close> and \<^verbatim>\<open>d | u\<close> on a dict with string keys, kept in insertion
  order: a key already there keeps its place.
\<close>

fun dict_set :: "string \<Rightarrow> json \<Rightarrow> (string \<times> json) list \<Rightarrow> (string \<times> json) list" where
  "dict_set k v [] = [(k, v)]"
| "dict_set k v (p # ps) = (if fst p = k then (k, v) # ps else p # dict_set k v ps)"

fun dict_update :: "(string \<times> json) list \<Rightarrow> (string \<times> json) list \<Rightarrow> (string \<times> json) list" where
  "dict_update d [] = d"
| "dict_update d (p # ps) = dict_update (dict_set (fst p) (snd p) d) ps"

text \<open>
  A dict or set of the program whose keys are hashable JSON values: keys are found by
  \<^verbatim>\<open>==\<close>, and an entry that is overwritten keeps its first key.
\<close>

fun pydict_get :: "json \<Rightarrow> (json \<times> 'v) list \<Rightarrow> 'v option" where
  "pydict_get k [] = None"
| "pydict_get k (p # ps) = (if py_eq k (fst p) then Some (snd p) else pydict_get k ps)"

fun pydict_set :: "json \<Rightarrow> 'v \<Rightarrow> (json \<times> 'v) list \<Rightarrow> (json \<times> 'v) list" where
  "pydict_set k v [] = [(k, v)]"
| "pydict_set k v (p # ps) =
     (if py_eq k (fst p) then (fst p, v) # ps else p # pydict_set k v ps)"

fun pyset_add :: "json \<Rightarrow> json list \<Rightarrow> json list" where
  "pyset_add k [] = [k]"
| "pyset_add k (v # vs) = (if py_eq k v then v # vs else v # pyset_add k vs)"

text \<open>\<^verbatim>\<open>set(xs)\<close>, as the list of its members (Python fixes no order for them).\<close>

definition py_set :: "json list \<Rightarrow> json list" where
  "py_set xs = foldl (\<lambda>s k. pyset_add k s) [] xs"

section \<open>ApertureDBStorageMixin\<close>

text \<open>
  \<^verbatim>\<open>_response_status\<close> (lines 55-62). A value that is neither a list nor a dict, and
  a dict with no entry at all, fall through to the implicit \<^verbatim>\<open>return None\<close>.
\<close>

fun response_status :: "json \<Rightarrow> error + json" where
  "response_status (JList rs) =
     (case sequence (map response_status rs) of
        Inl e \<Rightarrow> Inl e
      | Inr ss \<Rightarrow> py_max ss)"
| "response_status (JDict d) =
     (case map_of d ''status'' of
        Some v \<Rightarrow> Inr v
      | None \<Rightarrow> (case d of [] \<Rightarrow> Inr JNull | p # ps \<Rightarrow> response_status (snd p)))"
| "response_status v = Inr JNull"

section \<open>AnnotationBBox\<close>

record pixel_rect =
  rect_x :: int
  rect_y :: int
  rect_width :: int
  rect_height :: int

record AnnotationBBox =
  original_width :: json
  original_height :: json
  rect :: pixel_rect
  labels :: json
  bbox_text :: json

text \<open>\<^verbatim>\<open>_get\<close> (lines 343-348).\<close>

definition AnnotationBBox_get :: "json \<Rightarrow> string \<Rightarrow> string \<Rightarrow> error + json" where
  "AnnotationBBox_get obj key description =
     (case obj of
        JDict d \<Rightarrow>
          (case map_of d key of
             None \<Rightarrow>
               Inl (ValueError (description @ '' must include '' @ [CHR 0x22] @ key @ [CHR 0x22]))
           | Some v \<Rightarrow> Inr v)
      | _ \<Rightarrow> Inl (ValueError (description @ '' must be a dict'')))"

text \<open>
  \<^verbatim>\<open>int(v * original / 100)\<close>. Two numbers give a float, truncated. Every other pair of
  JSON values raises \<open>TypeError\<close>, at the product or (a string or list repeated by an
  integer) at the division. Python's \<open>OverflowError\<close> on a quotient beyond the floats
  is not modelled.
\<close>

definition scale :: "json \<Rightarrow> json \<Rightarrow> error + int" where
  "scale v original =
     (case (as_num v, as_num original) of
        (Some a, Some b) \<Rightarrow> Inr (py_int (a * b / 100))
      | _ \<Rightarrow> Inl TypeError)"

text \<open>
  The label check of \<^verbatim>\<open>__init__\<close> (lines 365-367) and of \<^verbatim>\<open>merge\<close> (lines 388-390).
  Building the message joins the labels, which fails on a label that is not a string.
\<close>

definition check_labels :: "json \<Rightarrow> error + unit" where
  "check_labels ls =
     (case py_len ls of
        Inl e \<Rightarrow> Inl e
      | Inr n \<Rightarrow>
          if n > 1 then
            (if join_ok ls
             then Inl (ValueError ''rectangle annotation can have at most one label'')
             else Inl TypeError)
          else Inr ())"

text \<open>\<^verbatim>\<open>val[k] if k in val else []\<close>, for a \<open>val\<close> that is a dict.\<close>

definition get_or_empty :: "json \<Rightarrow> string \<Rightarrow> json" where
  "get_or_empty val k =
     (case val of
        JDict d \<Rightarrow> (case map_of d k of None \<Rightarrow> JList [] | Some v \<Rightarrow> v)
      | _ \<Rightarrow> JList [])"

text \<open>\<^verbatim>\<open>__init__\<close> (lines 350-368), statement by statement.\<close>

definition AnnotationBBox_init :: "json \<Rightarrow> error + AnnotationBBox" where
  "AnnotationBBox_init ann =
     (case AnnotationBBox_get ann ''original_width'' ''rectangle annotation'' of
        Inl e \<Rightarrow> Inl e
      | Inr ow \<Rightarrow>
     (case AnnotationBBox_get ann ''original_height'' ''rectangle annotation'' of
        Inl e \<Rightarrow> Inl e
      | Inr oh \<Rightarrow>
     (case AnnotationBBox_get ann ''image_rotation'' ''rectangle annotation'' of
        Inl e \<Rightarrow> Inl e
      | Inr ir \<Rightarrow>
     if \<not> py_eq ir (JNum 0) then Inl (ValueError ''Annotation must have 0 image_rotation'') else
     (case AnnotationBBox_get ann ''value'' ''rectangle annotation'' of
        Inl e \<Rightarrow> Inl e
      | Inr val \<Rightarrow>
     (case AnnotationBBox_get val ''x'' ''annotation value'' of
        Inl e \<Rightarrow> Inl e
      | Inr vx \<Rightarrow>
     (case scale vx ow of
        Inl e \<Rightarrow> Inl e
      | Inr px \<Rightarrow>
     (case AnnotationBBox_get val ''y'' ''annotation value'' of
        Inl e \<Rightarrow> Inl e
      | Inr vy \<Rightarrow>
     (case scale vy oh of
        Inl e \<Rightarrow> Inl e
      | Inr py \<Rightarrow>
     (case AnnotationBBox_get val ''width'' ''annotation value'' of
        Inl e \<Rightarrow> Inl e
      | Inr vw \<Rightarrow>
     (case scale vw ow of
        Inl e \<Rightarrow> Inl e
      | Inr pw \<Rightarrow>
     (case AnnotationBBox_get val ''height'' ''annotation value'' of
        Inl e \<Rightarrow> Inl e
      | Inr vh \<Rightarrow>
     (case scale vh oh of
        Inl e \<Rightarrow> Inl e
      | Inr ph \<Rightarrow>
     (case AnnotationBBox_get val ''rotation'' ''annotation value'' of
        Inl e \<Rightarrow> Inl e
      | Inr vr \<Rightarrow>
     if \<not> py_eq vr (JNum 0) then Inl (ValueError ''annotation value must have 0 rotation'') else
     (case check_labels (get_or_empty val ''rectanglelabels'') of
        Inl e \<Rightarrow> Inl e
      | Inr u \<Rightarrow>
          Inr \<lparr>original_width = ow, original_height = oh,
               rect = \<lparr>rect_x = px, rect_y = py, rect_width = pw, rect_height = ph\<rparr>,
               labels = get_or_empty val ''rectanglelabels'',
               bbox_text = get_or_empty val ''text''\<rparr>))))))))))))))"

text \<open>
  \<^verbatim>\<open>_attr_must_match\<close> (lines 371-376), on the two attribute values; \<open>int_val\<close> is a
  field of a pixel rectangle as the Python integer it is.
\<close>

definition int_val :: "int \<Rightarrow> json" where
  "int_val i = JNum (of_int i)"

definition attr_must_match :: "json \<Rightarrow> json \<Rightarrow> string \<Rightarrow> error + unit" where
  "attr_must_match a_val b_val attr =
     (if \<not> py_eq a_val b_val then Inl (ValueError (''Annotations have mismatched '' @ attr))
      else Inr ())"

text \<open>
  \<^verbatim>\<open>merge\<close> (lines 378-391). \<open>other\<close> is a box already, or a raw fragment that is
  first constructed. The result is \<open>self\<close> after the two \<^verbatim>\<open>extend\<close> calls.
\<close>

datatype merge_other = OtherBBox AnnotationBBox | OtherRaw json

definition AnnotationBBox_merge :: "AnnotationBBox \<Rightarrow> merge_other \<Rightarrow> error + AnnotationBBox" where
  "AnnotationBBox_merge self other =
     (case (case other of OtherBBox b \<Rightarrow> Inr b | OtherRaw ann \<Rightarrow> AnnotationBBox_init ann) of
        Inl e \<Rightarrow> Inl e
      | Inr other \<Rightarrow>
     (case attr_must_match (original_width self) (original_width other) ''original_width'' of
        Inl e \<Rightarrow> Inl e
      | Inr u \<Rightarrow>
     (case attr_must_match (original_height self) (original_height other) ''original_height'' of
        Inl e \<Rightarrow> Inl e
      | Inr u \<Rightarrow>
     (case attr_must_match (int_val (rect_x (rect self))) (int_val (rect_x (rect other))) ''x'' of
        Inl e \<Rightarrow> Inl e
      | Inr u \<Rightarrow>
     (case attr_must_match (int_val (rect_y (rect self))) (int_val (rect_y (rect other))) ''y'' of
        Inl e \<Rightarrow> Inl e
      | Inr u \<Rightarrow>
     (case attr_must_match (int_val (rect_width (rect self))) (int_val (rect_width (rect other))) ''width'' of
        Inl e \<Rightarrow> Inl e
      | Inr u \<Rightarrow>
     (case attr_must_match (int_val (rect_height (rect self))) (int_val (rect_height (rect other))) ''height'' of
        Inl e \<Rightarrow> Inl e
      | Inr u \<Rightarrow>
     (case py_extend (labels self) (labels other) of
        Inl e \<Rightarrow> Inl e
      | Inr ls \<Rightarrow>
     (case check_labels ls of
        Inl e \<Rightarrow> Inl e
      | Inr u \<Rightarrow>
     (case py_extend (bbox_text self) (bbox_text other) of
        Inl e \<Rightarrow> Inl e
      | Inr ts \<Rightarrow> Inr (self\<lparr>labels := ls, bbox_text := ts\<rparr>)))))))))))"

section \<open>ApertureDBExportStorage: the merge of the regions\<close>

text \<open>
  The loop of \<^verbatim>\<open>save_annotation\<close> that fills \<^verbatim>\<open>bbox_map\<close> (lines 401-411). The map
  is kept in insertion order, as the later loop over \<^verbatim>\<open>bbox_map.items()\<close> reads it.
\<close>

fun merge_regions :: "(json \<times> AnnotationBBox) list \<Rightarrow> json list \<Rightarrow>
    error + (json \<times> AnnotationBBox) list" where
  "merge_regions bbox_map [] = Inr bbox_map"
| "merge_regions bbox_map (ann # regions) =
     (case py_in ''type'' ann of
        Inl e \<Rightarrow> Inl e
      | Inr has_type \<Rightarrow>
     if \<not> has_type then merge_regions bbox_map regions else
     (case py_getitem ann ''id'' of
        Inl e \<Rightarrow> Inl e
      | Inr i \<Rightarrow>
     if \<not> hashable i then Inl TypeError else
     (case pydict_get i bbox_map of
        Some box \<Rightarrow>
          (case AnnotationBBox_merge box (OtherRaw ann) of
             Inl e \<Rightarrow> Inl e
           | Inr box' \<Rightarrow> merge_regions (pydict_set i box' bbox_map) regions)
      | None \<Rightarrow>
     (case py_getitem ann ''type'' of
        Inl e \<Rightarrow> Inl e
      | Inr (JStr t) \<Rightarrow>
          if startswith t ''rectangle'' then
            (case AnnotationBBox_init ann of
               Inl e \<Rightarrow> Inl e
             | Inr box \<Rightarrow> merge_regions (pydict_set i box bbox_map) regions)
          else merge_regions bbox_map regions
      | Inr v \<Rightarrow> Inl AttributeError))))"

text \<open>
  \<^verbatim>\<open>annotation.result if isinstance(annotation.result, list) else [annotation.result]\<close>
  (lines 402-403).
\<close>

definition regions_of :: "json \<Rightarrow> json list" where
  "regions_of result = (case result of JList rs \<Rightarrow> rs | _ \<Rightarrow> [result])"

section \<open>The store\<close>

text \<open>
  The external store answers a query document with a response document and may change
  its state: \<^verbatim>\<open>db.query(q)\<close> is a step of \<open>'s store\<close>, for any state type \<open>'s\<close>. The blobs
  it returns beside the response are not used by the operations modelled here. The
  connection also records every query sent and the response to it, which the source
  does not: it is how a property says how many queries an operation made.
\<close>

type_synonym 's store = "'s \<Rightarrow> json \<Rightarrow> json \<times> 's"

record 's connection =
  store_state :: 's
  calls :: "(json \<times> json) list"

definition db_query :: "'s store \<Rightarrow> 's connection \<Rightarrow> json \<Rightarrow> json \<times> 's connection" where
  "db_query db conn q =
     (case db (store_state conn) q of
        (res, s) \<Rightarrow> (res, \<lparr>store_state = s, calls = calls conn @ [(q, res)]\<rparr>))"

section \<open>ApertureDBExportStorage\<close>

text \<open>
  The fields of the task system's annotation that \<^verbatim>\<open>save_annotation\<close> and
  \<^verbatim>\<open>delete_annotation\<close> read: \<open>ann_id\<close> is \<^verbatim>\<open>str(annotation.id)\<close>, \<open>created_at\<close> and
  \<open>updated_at\<close> are the \<^verbatim>\<open>isoformat()\<close> texts, \<open>completed_by\<close> and \<open>updated_by\<close> the
  e-mail of the user when there is one, \<open>storage_filename\<close> is
  \<^verbatim>\<open>annotation.task.get_storage_filename()\<close>, \<open>task_data\<close> is \<^verbatim>\<open>annotation.task.data\<close> and
  \<open>serialized_data\<close> what \<^verbatim>\<open>_get_serialized_data\<close> of the base class returns.
\<close>

record annotation =
  ann_id :: string
  ann_result :: json
  created_at :: string
  updated_at :: string
  project_title :: json
  project_id :: json
  completed_by :: "string option"
  updated_by :: "string option"
  storage_filename :: "string option"
  task_data :: json
  serialized_data :: json

text \<open>
  \<^verbatim>\<open>status not in (0, 2)\<close> (lines 539 and 564).
\<close>

definition status_accepted :: "json \<Rightarrow> bool" where
  "status_accepted status = (py_eq status (JNum 0) \<or> py_eq status (JNum 2))"

text \<open>
  \<^verbatim>\<open>delete_annotation\<close> (lines 543-566).
\<close>

definition delete_query :: "string \<Rightarrow> json" where
  "delete_query i = JList
     [JDict [(''FindEntity'', JDict
        [(''with_class'', JStr ''LS_annotation''),
         (''constraints'', JDict [(''LS_id'', JList [JStr ''=='', JStr i])]),
         (''_ref'', JNum 1)])],
      JDict [(''FindBoundingBox'', JDict
        [(''is_connected_to'', JDict
           [(''ref'', JNum 1), (''connection_class'', JStr ''LS_annotation_region'')]),
         (''_ref'', JNum 2)])],
      JDict [(''DeleteBoundingBox'', JDict [(''ref'', JNum 2)])],
      JDict [(''DeleteEntity'', JDict [(''ref'', JNum 1)])]]"

definition delete_annotation ::
    "'s store \<Rightarrow> 's connection \<Rightarrow> annotation \<Rightarrow> (error + unit) \<times> 's connection" where
  "delete_annotation db conn a =
     (case db_query db conn (delete_query (ann_id a)) of
        (res, conn') \<Rightarrow>
          (case response_status res of
             Inl e \<Rightarrow> Inl e
           | Inr status \<Rightarrow>
               if \<not> status_accepted status
               then Inl (ValueError ''Error deleting annotation data from ApertureDB'')
               else Inr (),
           conn'))"

text \<open>
  \<^verbatim>\<open>re.split("key=", img_url)[-1]\<close>: the text after the last \<open>key=\<close>, or all of it.
\<close>

fun after_last :: "string \<Rightarrow> string \<Rightarrow> string option" where
  "after_last p [] = None"
| "after_last p (c # cs) =
     (case after_last p cs of
        Some r \<Rightarrow> Some r
      | None \<Rightarrow> if startswith (c # cs) p then Some (drop (length p) (c # cs)) else None)"

definition split_last :: "string \<Rightarrow> string \<Rightarrow> string" where
  "split_last p s = (case after_last p s of None \<Rightarrow> s | Some r \<Rightarrow> r)"

text \<open>
  The image key of the annotation's task (lines 413-416).
\<close>

definition image_id :: "annotation \<Rightarrow> error + string" where
  "image_id a =
     (case storage_filename a of
        Some f \<Rightarrow> if f \<noteq> [] then Inr f else
          (case py_getitem (task_data a) ''image'' of
             Inl e \<Rightarrow> Inl e
           | Inr (JStr url) \<Rightarrow> Inr (split_last ''key='' url)
           | Inr v \<Rightarrow> Inl TypeError)
      | None \<Rightarrow>
          (case py_getitem (task_data a) ''image'' of
             Inl e \<Rightarrow> Inl e
           | Inr (JStr url) \<Rightarrow> Inr (split_last ''key='' url)
           | Inr v \<Rightarrow> Inl TypeError))"

text \<open>
  The first query of \<^verbatim>\<open>save_annotation\<close> (lines 423-438) and the scan of its response
  for boxes that exist already (lines 445-451).
\<close>

definition reconnaissance_query :: "string \<Rightarrow> json" where
  "reconnaissance_query img = JList
     [JDict [(''FindImage'', JDict
        [(''blobs'', JBool False),
         (''constraints'', JDict [(''_uniqueid'', JList [JStr ''=='', JStr img])]),
         (''_ref'', JNum 1)])],
      JDict [(''FindBoundingBox'', JDict
        [(''blobs'', JBool False),
         (''image_ref'', JNum 1),
         (''results'', JDict [(''list'', JList [JStr ''LS_id'', JStr ''_uniqueid''])])])]]"

fun scan_bbox_id_fields :: "(json \<times> AnnotationBBox) list \<Rightarrow> (json \<times> string) list \<Rightarrow>
    json list \<Rightarrow> error + (json \<times> string) list" where
  "scan_bbox_id_fields bbox_map id_fields [] = Inr id_fields"
| "scan_bbox_id_fields bbox_map id_fields (bbx # rest) =
     (case py_getitem bbx ''LS_id'' of
        Inl e \<Rightarrow> Inl e
      | Inr ls_id \<Rightarrow>
     if \<not> hashable ls_id then Inl TypeError else
     if pydict_get ls_id bbox_map \<noteq> None
     then scan_bbox_id_fields bbox_map (pydict_set ls_id ''LS_id'' id_fields) rest else
     (case py_getitem bbx ''_uniqueid'' of
        Inl e \<Rightarrow> Inl e
      | Inr uid \<Rightarrow>
     if \<not> hashable uid then Inl TypeError else
     if pydict_get uid bbox_map \<noteq> None
     then scan_bbox_id_fields bbox_map (pydict_set uid ''_uniqueid'' id_fields) rest
     else scan_bbox_id_fields bbox_map id_fields rest))"

definition bbox_id_fields :: "(json \<times> AnnotationBBox) list \<Rightarrow> json \<Rightarrow>
    error + (json \<times> string) list" where
  "bbox_id_fields bbox_map res =
     (case py_getindex res 1 of
        Inl e \<Rightarrow> Inl e
      | Inr r1 \<Rightarrow>
     (case py_getitem r1 ''FindBoundingBox'' of
        Inl e \<Rightarrow> Inl e
      | Inr found \<Rightarrow>
     (case py_in ''entities'' found of
        Inl e \<Rightarrow> Inl e
      | Inr has \<Rightarrow>
     if \<not> has then Inr [] else
     (case py_getitem found ''entities'' of
        Inl e \<Rightarrow> Inl e
      | Inr entities \<Rightarrow>
     (case py_iter entities of
        Inl e \<Rightarrow> Inl e
      | Inr bs \<Rightarrow> scan_bbox_id_fields bbox_map [] bs)))))"

text \<open>
  The second query of \<^verbatim>\<open>save_annotation\<close> (lines 458-535). \<open>dumps\<close> is \<^verbatim>\<open>json.dumps\<close>.
\<close>

definition box_label :: "AnnotationBBox \<Rightarrow> error + json" where
  "box_label b =
     (case py_len (labels b) of
        Inl e \<Rightarrow> Inl e
      | Inr n \<Rightarrow> if n > 0 then py_getindex (labels b) 0 else Inr (JStr []))"

definition rect_json :: "pixel_rect \<Rightarrow> json" where
  "rect_json r = JDict
     [(''x'', int_val (rect_x r)), (''y'', int_val (rect_y r)),
      (''width'', int_val (rect_width r)), (''height'', int_val (rect_height r))]"

fun box_commands :: "(json \<Rightarrow> string) \<Rightarrow> string \<Rightarrow> (json \<times> string) list \<Rightarrow> nat \<Rightarrow>
    (json \<times> AnnotationBBox) list \<Rightarrow> error + json list" where
  "box_commands dumps i id_fields ref [] = Inr []"
| "box_commands dumps i id_fields ref (item # items) =
     (case box_label (snd item) of
        Inl e \<Rightarrow> Inl e
      | Inr label \<Rightarrow>
     (case box_commands dumps i id_fields (ref + 1) items of
        Inl e \<Rightarrow> Inl e
      | Inr cmds \<Rightarrow>
     (case pydict_get (fst item) id_fields of
        Some id_field \<Rightarrow> Inr
          (JDict [(''UpdateBoundingBox'', JDict
             [(''constraints'', JDict [(id_field, JList [JStr ''=='', fst item])]),
              (''rectangle'', rect_json (rect (snd item))),
              (''label'', label),
              (''properties'', JDict
                 [(''LS_text'', JStr (dumps (bbox_text (snd item)))),
                  (''LS_annotation'', JStr i),
                  (''LS_label'', JStr (dumps (labels (snd item))))])])]
           # cmds)
      | None \<Rightarrow> Inr
          (JDict [(''AddBoundingBox'', JDict
             [(''image_ref'', JNum 1),
              (''_ref'', JNum (of_nat ref)),
              (''rectangle'', rect_json (rect (snd item))),
              (''label'', label),
              (''properties'', JDict
                 [(''LS_id'', fst item),
                  (''LS_text'', JStr (dumps (bbox_text (snd item)))),
                  (''LS_annotation'', JStr i),
                  (''LS_label'', JStr (dumps (labels (snd item))))])])]
           # JDict [(''AddConnection'', JDict
               [(''class'', JStr ''LS_annotation_region''), (''src'', JNum 2),
                (''dst'', JNum (of_nat ref)), (''if_not_found'', JDict [])])]
           # cmds))))"

definition annotation_commands :: "(json \<Rightarrow> string) \<Rightarrow> annotation \<Rightarrow> string \<Rightarrow> json list" where
  "annotation_commands dumps a img =
     [JDict [(''FindImage'', JDict
        [(''blobs'', JBool False),
         (''constraints'', JDict [(''_uniqueid'', JList [JStr ''=='', JStr img])]),
         (''results'', JDict [(''count'', JBool True)]),
         (''_ref'', JNum 1)])],
      JDict [(''AddEntity'', JDict
        [(''class'', JStr ''LS_annotation''),
         (''if_not_found'', JDict [(''LS_id'', JList [JStr ''=='', JStr (ann_id a)])]),
         (''properties'', JDict [(''LS_id'', JStr (ann_id a))]),
         (''connect'', JDict [(''ref'', JNum 1), (''class'', JStr ''LS_annotation_image'')]),
         (''_ref'', JNum 2)])],
      JDict [(''UpdateEntity'', JDict
        [(''ref'', JNum 2),
         (''properties'', JDict
            [(''LS_created_at'', JDict [(''_date'', JStr (created_at a))]),
             (''LS_project_title'', project_title a),
             (''LS_project_id'', project_id a),
             (''LS_completed_by'', JStr (case completed_by a of None \<Rightarrow> [] | Some m \<Rightarrow> m)),
             (''LS_updated_at'', JDict [(''_date'', JStr (updated_at a))]),
             (''LS_updated_by'', JStr (case updated_by a of None \<Rightarrow> [] | Some m \<Rightarrow> m)),
             (''LS_data'', JStr (dumps (serialized_data a)))])])]]"

text \<open>
  \<^verbatim>\<open>save_annotation\<close> (lines 395-541) up to its second query: the merge of the regions,
  the image key, the first query and the scan of its response give the query that
  saves; every exception on the way ends the call. The result is that query and the
  connection after the first one.
\<close>

definition save_annotation_query :: "(json \<Rightarrow> string) \<Rightarrow> 's store \<Rightarrow> 's connection \<Rightarrow>
    annotation \<Rightarrow> (error + json) \<times> 's connection" where
  "save_annotation_query dumps db conn a =
     (case merge_regions [] (regions_of (ann_result a)) of
        Inl e \<Rightarrow> (Inl e, conn)
      | Inr bbox_map \<Rightarrow>
     (case image_id a of
        Inl e \<Rightarrow> (Inl e, conn)
      | Inr img \<Rightarrow>
     (case db_query db conn (reconnaissance_query img) of
        (res, conn') \<Rightarrow>
          (case response_status res of
             Inl e \<Rightarrow> Inl e
           | Inr status \<Rightarrow>
          if \<not> py_eq status (JNum 0)
          then Inl (ValueError ''Error saving annotation data to ApertureDB'') else
          (case bbox_id_fields bbox_map res of
             Inl e \<Rightarrow> Inl e
           | Inr id_fields \<Rightarrow>
          (case box_commands dumps (ann_id a) id_fields 3 bbox_map of
             Inl e \<Rightarrow> Inl e
           | Inr cmds \<Rightarrow> Inr (JList (annotation_commands dumps a img @ cmds)))),
           conn'))))"

text \<open>
  \<^verbatim>\<open>save_annotation\<close>: the second query and the check of its status (lines 537-541).
\<close>

definition save_annotation :: "(json \<Rightarrow> string) \<Rightarrow> 's store \<Rightarrow> 's connection \<Rightarrow>
    annotation \<Rightarrow> (error + unit) \<times> 's connection" where
  "save_annotation dumps db conn a =
     (case save_annotation_query dumps db conn a of
        (Inl e, conn') \<Rightarrow> (Inl e, conn')
      | (Inr query, conn') \<Rightarrow>
     (case db_query db conn' query of
        (res, conn'') \<Rightarrow>
          (case response_status res of
             Inl e \<Rightarrow> Inl e
           | Inr status \<Rightarrow>
               if \<not> status_accepted status
               then Inl (ValueError ''Error saving annotation data to ApertureDB'')
               else Inr (),
           conn'')))"

section \<open>ApertureDBImportStorageBase\<close>

text \<open>
  The fields of the storage that the scan and the reader use. \<open>last_iterkeys\<close> and
  \<open>bbox_annotation_cache\<close> are the attributes \<^verbatim>\<open>_last_iterkeys\<close> and
  \<^verbatim>\<open>_bbox_annotation_cache\<close>, \<open>None\<close> as long as the object has no such attribute. A cache
  entry is the pair of the annotations and the predictions of an image.
\<close>

record ImportStorage =
  constraints :: "string option"
  predictions :: bool
  pred_constraints :: "string option"
  limit :: "nat option"
  last_iterkeys :: "json list option"
  bbox_annotation_cache :: "(json \<times> json list \<times> json list) list option"

text \<open>
  The \<^verbatim>\<open>find_images\<close> document of \<^verbatim>\<open>iterkeys\<close> before the loop (lines 122-135); \<open>loads\<close>
  is \<^verbatim>\<open>json.loads\<close>. The constraints field holds a JSON object: for a text that parses
  to another value the model raises \<open>TypeError\<close>, where \<^verbatim>\<open>dict.update\<close> depends on the
  value (it takes an empty list or string, and a sequence of pairs).
\<close>

definition internal_constraints :: "(string \<times> json) list" where
  "internal_constraints =
     [(''width'', JList [JStr ''>'', JNum 0]), (''height'', JList [JStr ''>'', JNum 0])]"

definition find_images_document :: "(string \<times> json) list \<Rightarrow> (string \<times> json) list" where
  "find_images_document cs =
     [(''uniqueids'', JBool True), (''blobs'', JBool False), (''limit'', JNum 100),
      (''constraints'', JDict cs)]"

definition find_images_init :: "(string \<Rightarrow> error + json) \<Rightarrow> ImportStorage \<Rightarrow>
    error + (string \<times> json) list" where
  "find_images_init loads self =
     (case constraints self of
        None \<Rightarrow> Inr (find_images_document internal_constraints)
      | Some c \<Rightarrow>
          if c = [] then Inr (find_images_document internal_constraints) else
          (case loads c of
             Inl e \<Rightarrow> Inl e
           | Inr (JDict user) \<Rightarrow>
               Inr (find_images_document (dict_update internal_constraints user))
           | Inr v \<Rightarrow> Inl TypeError))"

text \<open>
  One page of \<^verbatim>\<open>iterkeys\<close> (lines 143-150), from the response: an exception, \<open>None\<close>
  for the page that ends the scan, or the keys of the page. \<^verbatim>\<open>set(ids)\<close> needs
  hashable keys.
\<close>

definition page_ids :: "json \<Rightarrow> error + json list option" where
  "page_ids res =
     (case response_status res of
        Inl e \<Rightarrow> Inl e
      | Inr status \<Rightarrow>
     if \<not> py_eq status (JNum 0) then Inl (ValueError ''Failed to query images'') else
     (case py_getindex res 0 of
        Inl e \<Rightarrow> Inl e
      | Inr r0 \<Rightarrow>
     (case py_getitem r0 ''FindImage'' of
        Inl e \<Rightarrow> Inl e
      | Inr fe_result \<Rightarrow>
     (case py_getitem fe_result ''returned'' of
        Inl e \<Rightarrow> Inl e
      | Inr returned \<Rightarrow>
     if py_eq returned (JNum 0) then Inr None else
     (case py_in ''entities'' fe_result of
        Inl e \<Rightarrow> Inl e
      | Inr has \<Rightarrow>
     if \<not> has then Inr (Some []) else
     (case py_getitem fe_result ''entities'' of
        Inl e \<Rightarrow> Inl e
      | Inr entities \<Rightarrow>
     (case py_iter entities of
        Inl e \<Rightarrow> Inl e
      | Inr ents \<Rightarrow>
     (case sequence (map (\<lambda>ent. py_getitem ent ''_uniqueid'') ents) of
        Inl e \<Rightarrow> Inl e
      | Inr ids \<Rightarrow>
     if list_all hashable ids then Inr (Some ids) else Inl TypeError))))))))"

text \<open>
  \<^verbatim>\<open>iterkeys\<close> (lines 119-153), run to its end: the keys it yields in order, the
  exception that ended it if one did, and the storage and the connection it leaves.
  With no limit (\<^verbatim>\<open>None\<close> or 0) the loop runs until a page ends it, which a store may
  never send: the result is an option.
\<close>

record 's scan =
  yielded :: "json list"
  raised :: "error option"
  scan_self :: ImportStorage
  scan_conn :: "'s connection"

definition find_image_query :: "(string \<times> json) list \<Rightarrow> json" where
  "find_image_query find_images = JList [JDict [(''FindImage'', JDict find_images)]]"

partial_function (option) iterkeys_loop :: "'s store \<Rightarrow> (string \<times> json) list \<Rightarrow> nat \<Rightarrow>
    json list \<Rightarrow> ImportStorage \<Rightarrow> 's connection \<Rightarrow> 's scan option" where
  "iterkeys_loop db find_images offset out self conn =
     (if (case limit self of None \<Rightarrow> True | Some n \<Rightarrow> n = 0 \<or> offset < n) then
        (case db_query db conn
                (find_image_query (dict_set ''offset'' (JNum (of_nat offset)) find_images)) of
           (res, conn') \<Rightarrow>
             (case page_ids res of
                Inl e \<Rightarrow>
                  Some \<lparr>yielded = out, raised = Some e, scan_self = self, scan_conn = conn'\<rparr>
              | Inr None \<Rightarrow>
                  Some \<lparr>yielded = out, raised = None, scan_self = self, scan_conn = conn'\<rparr>
              | Inr (Some ids) \<Rightarrow>
                  iterkeys_loop db (dict_set ''offset'' (JNum (of_nat offset)) find_images)
                    (offset + 100) (out @ ids)
                    (self\<lparr>last_iterkeys := Some (py_set ids),
                           bbox_annotation_cache := Some []\<rparr>)
                    conn'))
      else Some \<lparr>yielded = out, raised = None, scan_self = self, scan_conn = conn\<rparr>)"

definition iterkeys :: "(string \<Rightarrow> error + json) \<Rightarrow> 's store \<Rightarrow> ImportStorage \<Rightarrow>
    's connection \<Rightarrow> 's scan option" where
  "iterkeys loads db self conn =
     (case find_images_init loads self of
        Inl e \<Rightarrow> Some \<lparr>yielded = [], raised = Some e, scan_self = self, scan_conn = conn\<rparr>
      | Inr find_images \<Rightarrow> iterkeys_loop db find_images 0 [] self conn)"

text \<open>
  \<^verbatim>\<open>_adb_to_rectanglelabels\<close> (lines 156-187). \<open>percent\<close> is \<^verbatim>\<open>100 * v / d\<close>; \<open>repr\<close> is
  what \<^verbatim>\<open>str\<close> gives for a value that is not a string.
\<close>

definition percent :: "json \<Rightarrow> json \<Rightarrow> error + json" where
  "percent v d =
     (case (as_num v, as_num d) of
        (Some a, Some b) \<Rightarrow> if b = 0 then Inl ZeroDivisionError else Inr (JNum (100 * a / b))
      | _ \<Rightarrow> Inl TypeError)"

definition py_str :: "(json \<Rightarrow> string) \<Rightarrow> json \<Rightarrow> string" where
  "py_str repr v = (case v of JStr s \<Rightarrow> s | _ \<Rightarrow> repr v)"

definition coordinate :: "json \<Rightarrow> string \<Rightarrow> json \<Rightarrow> error + json" where
  "coordinate bbx k d =
     (case py_getitem bbx ''_coordinates'' of
        Inl e \<Rightarrow> Inl e
      | Inr c \<Rightarrow>
     (case py_getitem c k of
        Inl e \<Rightarrow> Inl e
      | Inr v \<Rightarrow> percent v d))"

definition rectangle_result :: "(json \<Rightarrow> string) \<Rightarrow> json \<Rightarrow> json \<Rightarrow> json \<Rightarrow> error + json" where
  "rectangle_result repr w h bbx =
     (case py_getitem bbx ''LS_id'' of
        Inl e \<Rightarrow> Inl e
      | Inr ls_id \<Rightarrow>
     (case (if ls_id \<noteq> JNull then Inr ls_id else py_getitem bbx ''_uniqueid'') of
        Inl e \<Rightarrow> Inl e
      | Inr i \<Rightarrow>
     (case coordinate bbx ''x'' w of
        Inl e \<Rightarrow> Inl e
      | Inr px \<Rightarrow>
     (case coordinate bbx ''y'' h of
        Inl e \<Rightarrow> Inl e
      | Inr py \<Rightarrow>
     (case coordinate bbx ''width'' w of
        Inl e \<Rightarrow> Inl e
      | Inr pw \<Rightarrow>
     (case coordinate bbx ''height'' h of
        Inl e \<Rightarrow> Inl e
      | Inr ph \<Rightarrow>
     (case py_getitem bbx ''_label'' of
        Inl e \<Rightarrow> Inl e
      | Inr label \<Rightarrow> Inr (JDict
          [(''from_name'', JStr ''label''),
           (''to_name'', JStr ''image''),
           (''id'', JStr (py_str repr i)),
           (''type'', JStr ''rectanglelabels''),
           (''original_width'', w),
           (''original_height'', h),
           (''image_rotation'', JNum 0),
           (''value'', JDict
              [(''rotation'', JNum 0), (''x'', px), (''y'', py), (''width'', pw),
               (''height'', ph), (''rectanglelabels'', JList [label])]),
           (''readonly'', JBool True)]))))))))"

definition adb_to_rectanglelabels :: "(json \<Rightarrow> string) \<Rightarrow> json \<Rightarrow> json \<Rightarrow> error + json list" where
  "adb_to_rectanglelabels repr img bboxen =
     (case py_getitem img ''width'' of
        Inl e \<Rightarrow> Inl e
      | Inr w \<Rightarrow>
     (case py_getitem img ''height'' of
        Inl e \<Rightarrow> Inl e
      | Inr h \<Rightarrow>
     (case py_len bboxen of
        Inl e \<Rightarrow> Inl e
      | Inr n \<Rightarrow>
     if n > 0 then
       (case py_iter bboxen of
          Inl e \<Rightarrow> Inl e
        | Inr bs \<Rightarrow>
       (case sequence (map (rectangle_result repr w h) bs) of
          Inl e \<Rightarrow> Inl e
        | Inr rs \<Rightarrow> Inr [JDict [(''result'', JList rs)]]))
     else Inr [])))"

text \<open>
  The query of \<^verbatim>\<open>_get_bbox_annotations_batch\<close> (lines 222-262). The prediction
  constraints hold a JSON object too: \<^verbatim>\<open>|\<close> raises \<open>TypeError\<close> on any other value.
\<close>

definition batch_find_commands :: "json list \<Rightarrow> json \<Rightarrow> json list" where
  "batch_find_commands keys project =
     [JDict [(''FindImage'', JDict
        [(''blobs'', JBool False),
         (''_ref'', JNum 1),
         (''results'', JDict [(''list'', JList [JStr ''width'', JStr ''height''])]),
         (''uniqueids'', JBool True),
         (''constraints'', JDict
            [(''width'', JList [JStr ''>'', JNum 0]),
             (''height'', JList [JStr ''>'', JNum 0]),
             (''_uniqueid'', JList [JStr ''in'', JList keys])])])],
      JDict [(''FindEntity'', JDict
        [(''with_class'', JStr ''LS_annotation''),
         (''is_connected_to'', JDict [(''ref'', JNum 1)]),
         (''constraints'', JDict [(''LS_project_id'', JList [JStr ''=='', project])]),
         (''results'', JDict [(''list'', JList [JStr ''LS_data''])]),
         (''group_by_source'', JBool True)])]]"

definition batch_query :: "(string \<Rightarrow> error + json) \<Rightarrow> ImportStorage \<Rightarrow> json list \<Rightarrow> json \<Rightarrow>
    error + json" where
  "batch_query loads self keys project =
     (if predictions self then
        (case (case pred_constraints self of
                 None \<Rightarrow> Inr (JDict [])
               | Some c \<Rightarrow> if c = [] then Inr (JDict []) else loads c) of
           Inl e \<Rightarrow> Inl e
         | Inr (JDict pc) \<Rightarrow> Inr (JList (batch_find_commands keys project @
             [JDict [(''FindBoundingBox'', JDict
                [(''image_ref'', JNum 1),
                 (''blobs'', JBool False),
                 (''coordinates'', JBool True),
                 (''labels'', JBool True),
                 (''uniqueids'', JBool True),
                 (''results'', JDict [(''list'', JList [JStr ''LS_id''])]),
                 (''constraints'', JDict
                    (dict_update pc [(''LS_id'', JList [JStr ''=='', JNull])])),
                 (''group_by_source'', JBool True)])]]))
         | Inr v \<Rightarrow> Inl TypeError)
      else Inr (JList (batch_find_commands keys project)))"

text \<open>
  \<^verbatim>\<open>_get_bbox_annotations_batch\<close> is a generator. \<open>batch_images\<close> is its run up to the
  loop (lines 220-270): the query, the status check and the images of the response.
\<close>

definition batch_images :: "(string \<Rightarrow> error + json) \<Rightarrow> 's store \<Rightarrow> ImportStorage \<Rightarrow>
    's connection \<Rightarrow> json list \<Rightarrow> json \<Rightarrow> (error + json \<times> json list) \<times> 's connection" where
  "batch_images loads db self conn keys project =
     (case batch_query loads self keys project of
        Inl e \<Rightarrow> (Inl e, conn)
      | Inr query \<Rightarrow>
     (case db_query db conn query of
        (res, conn') \<Rightarrow>
          (case response_status res of
             Inl e \<Rightarrow> Inl e
           | Inr status \<Rightarrow>
          if \<not> py_eq status (JNum 0)
          then Inl (ValueError ''Error retrieving ApertureDB image data'') else
          (case py_getindex res 0 of
             Inl e \<Rightarrow> Inl e
           | Inr r0 \<Rightarrow>
          (case py_getitem r0 ''FindImage'' of
             Inl e \<Rightarrow> Inl e
           | Inr found \<Rightarrow>
          (case py_in ''entities'' found of
             Inl e \<Rightarrow> Inl e
           | Inr has \<Rightarrow>
          if \<not> has then Inr (res, []) else
          (case py_getitem found ''entities'' of
             Inl e \<Rightarrow> Inl e
           | Inr entities \<Rightarrow>
          (case py_iter entities of
             Inl e \<Rightarrow> Inl e
           | Inr imgs \<Rightarrow> Inr (res, imgs)))))),
           conn')))"

text \<open>
  \<^verbatim>\<open>res[i][cmd]["entities"].get(key, []) if res[i][cmd]["returned"] > 0 else []\<close>
  (lines 273-274 and 279-280).
\<close>

definition dict_get_or_empty :: "json \<Rightarrow> json \<Rightarrow> error + json" where
  "dict_get_or_empty obj key =
     (case obj of
        JDict d \<Rightarrow>
          if \<not> hashable key then Inl TypeError else
          (case key of
             JStr k \<Rightarrow> (case map_of d k of None \<Rightarrow> Inr (JList []) | Some v \<Rightarrow> Inr v)
           | _ \<Rightarrow> Inr (JList []))
      | _ \<Rightarrow> Inl AttributeError)"

definition grouped :: "json \<Rightarrow> nat \<Rightarrow> string \<Rightarrow> json \<Rightarrow> error + json" where
  "grouped res i cmd key =
     (case py_getindex res i of
        Inl e \<Rightarrow> Inl e
      | Inr r \<Rightarrow>
     (case py_getitem r cmd of
        Inl e \<Rightarrow> Inl e
      | Inr found \<Rightarrow>
     (case py_getitem found ''returned'' of
        Inl e \<Rightarrow> Inl e
      | Inr returned \<Rightarrow>
     (case py_gt returned (JNum 0) of
        Inl e \<Rightarrow> Inl e
      | Inr some \<Rightarrow>
     if some then
       (case py_getitem found ''entities'' of
          Inl e \<Rightarrow> Inl e
        | Inr entities \<Rightarrow> dict_get_or_empty entities key)
     else Inr (JList [])))))"

text \<open>
  One turn of the generator's loop (lines 271-285): the key, the annotations and the
  predictions of one image of the response.
\<close>

definition loads_data :: "(string \<Rightarrow> error + json) \<Rightarrow> json \<Rightarrow> error + json" where
  "loads_data loads ann =
     (case py_getitem ann ''LS_data'' of
        Inl e \<Rightarrow> Inl e
      | Inr (JStr s) \<Rightarrow> loads s
      | Inr v \<Rightarrow> Inl TypeError)"

definition result_only :: "json \<Rightarrow> error + json" where
  "result_only ann =
     (case py_getitem ann ''result'' of
        Inl e \<Rightarrow> Inl e
      | Inr r \<Rightarrow> Inr (JDict [(''result'', r)]))"

definition batch_item :: "(string \<Rightarrow> error + json) \<Rightarrow> (json \<Rightarrow> string) \<Rightarrow> ImportStorage \<Rightarrow>
    json \<Rightarrow> json \<Rightarrow> error + json \<times> json list \<times> json list" where
  "batch_item loads repr self res img =
     (case py_getitem img ''_uniqueid'' of
        Inl e \<Rightarrow> Inl e
      | Inr key \<Rightarrow>
     (case grouped res 1 ''FindEntity'' key of
        Inl e \<Rightarrow> Inl e
      | Inr found \<Rightarrow>
     (case py_iter found of
        Inl e \<Rightarrow> Inl e
      | Inr stored \<Rightarrow>
     (case sequence (map (loads_data loads) stored) of
        Inl e \<Rightarrow> Inl e
      | Inr loaded \<Rightarrow>
     (case sequence (map result_only loaded) of
        Inl e \<Rightarrow> Inl e
      | Inr anns \<Rightarrow>
     if predictions self then
       (case grouped res 2 ''FindBoundingBox'' key of
          Inl e \<Rightarrow> Inl e
        | Inr bboxen \<Rightarrow>
       (case adb_to_rectanglelabels repr img bboxen of
          Inl e \<Rightarrow> Inl e
        | Inr preds \<Rightarrow> Inr (key, anns, preds)))
     else Inr (key, anns, []))))))"

text \<open>
  The dict comprehension of line 211 over the generator: each image in turn is read and
  then stored under its key, which must be hashable; the first exception ends it.
\<close>

fun batch_cache :: "(string \<Rightarrow> error + json) \<Rightarrow> (json \<Rightarrow> string) \<Rightarrow> ImportStorage \<Rightarrow> json \<Rightarrow>
    (json \<times> json list \<times> json list) list \<Rightarrow> json list \<Rightarrow>
    error + (json \<times> json list \<times> json list) list" where
  "batch_cache loads repr self res cache [] = Inr cache"
| "batch_cache loads repr self res cache (img # imgs) =
     (case batch_item loads repr self res img of
        Inl e \<Rightarrow> Inl e
      | Inr item \<Rightarrow>
          if \<not> hashable (fst item) then Inl TypeError
          else batch_cache loads repr self res (pydict_set (fst item) (snd item) cache) imgs)"


section \<open>Notions of the properties\<close>


text \<open>
  The keys a response gives to the scan (none when it ends or fails the scan), and the
  calls a run added to the connection.
\<close>

definition response_ids :: "json \<Rightarrow> json list" where
  "response_ids res = (case page_ids res of Inr (Some ids) \<Rightarrow> ids | _ \<Rightarrow> [])"

definition new_calls :: "'s connection \<Rightarrow> 's connection \<Rightarrow> (json \<times> json) list" where
  "new_calls before after = drop (length (calls before)) (calls after)"




section \<open>Example inputs\<close>

text \<open>
  The rectangle region of the end-to-end scenario, on the image \<open>img1\<close> of 800 by 600, and
  the box that \<^verbatim>\<open>__init__\<close> makes of it.
\<close>

definition img1_value :: "(string \<times> json) list" where
  "img1_value =
     [(''x'', JNum 10), (''y'', JNum 10), (''width'', JNum 50), (''height'', JNum 20),
      (''rotation'', JNum 0), (''rectanglelabels'', JList [JStr ''cat''])]"

definition img1_fields :: "(string \<times> json) list" where
  "img1_fields =
     [(''id'', JStr ''r1''), (''type'', JStr ''rectanglelabels''),
      (''original_width'', JNum 800), (''original_height'', JNum 600),
      (''image_rotation'', JNum 0), (''value'', JDict img1_value)]"

definition img1_region :: json where
  "img1_region = JDict img1_fields"

definition img1_box :: AnnotationBBox where
  "img1_box = \<lparr>original_width = JNum 800, original_height = JNum 600,
       rect = \<lparr>rect_x = 80, rect_y = 60, rect_width = 400, rect_height = 120\<rparr>,
       labels = JList [JStr ''cat''], bbox_text = JList []\<rparr>"


definition img1_textarea_moved :: json where
  "img1_textarea_moved = JDict
     [(''id'', JStr ''r1''), (''type'', JStr ''textarea''),
      (''original_width'', JNum 800), (''original_height'', JNum 600),
      (''image_rotation'', JNum 0),
      (''value'', JDict [(''x'', JNum 20), (''y'', JNum 10), (''width'', JNum 50),
                         (''height'', JNum 20), (''rotation'', JNum 0),
                         (''text'', JList [JStr ''hello''])])]"


definition labelled_region :: "string \<Rightarrow> json" where
  "labelled_region t = JDict
     [(''id'', JStr ''r1''), (''type'', JStr ''rectanglelabels''),
      (''original_width'', JNum 800), (''original_height'', JNum 600),
      (''image_rotation'', JNum 0),
      (''value'', JDict [(''x'', JNum 10), (''y'', JNum 10), (''width'', JNum 50),
                         (''height'', JNum 20), (''rotation'', JNum 0),
                         (''rectanglelabels'', JList [JStr ''cat'']),
                         (''text'', JList [JStr t])])]"

definition plain_region :: "string \<Rightarrow> json" where
  "plain_region t = JDict
     [(''id'', JStr ''r1''), (''type'', JStr ''rectangle''),
      (''original_width'', JNum 800), (''original_height'', JNum 600),
      (''image_rotation'', JNum 0),
      (''value'', JDict [(''x'', JNum 10), (''y'', JNum 10), (''width'', JNum 50),
                         (''height'', JNum 20), (''rotation'', JNum 0),
                         (''text'', JList [JStr t])])]"

text \<open>
  A store that answers the queries of a run with the responses of a list, in order
  (\<^verbatim>\<open>None\<close> once the list is used up); its state is the number of queries answered.
  \<open>conn0\<close> is a connection that has sent nothing.
\<close>

definition scripted_store :: "json list \<Rightarrow> nat store" where
  "scripted_store rs s q = (if s < length rs then rs ! s else JNull, Suc s)"

definition conn0 :: "nat connection" where
  "conn0 = \<lparr>store_state = 0, calls = []\<rparr>"

text \<open>
  Stand-ins for \<^verbatim>\<open>json.dumps\<close>, for \<^verbatim>\<open>str\<close> on a value that is not a string, and for
  \<^verbatim>\<open>json.loads\<close>, which here parses the one constraints text \<^verbatim>\<open>{"width": ["==", 0]}\<close>.
\<close>

definition example_dumps :: "json \<Rightarrow> string" where
  "example_dumps v = ''null''"


definition width_zero_text :: string where
  "width_zero_text =
     ''{'' @ [CHR 0x22] @ ''width'' @ [CHR 0x22] @ '': ['' @ [CHR 0x22] @ ''=='' @ [CHR 0x22] @
     '', 0]}''"

definition example_loads :: "string \<Rightarrow> error + json" where
  "example_loads s =
     (if s = width_zero_text then Inr (JDict [(''width'', JList [JStr ''=='', JNum 0])])
      else Inl (ValueError ''JSONDecodeError''))"

text \<open>
  Responses of the store to the queries of the export storage, each command with its
  status, and an annotation of the image \<open>img1\<close> with the one region.
\<close>

definition command_status :: "string \<Rightarrow> rat \<Rightarrow> json" where
  "command_status cmd n = JDict [(cmd, JDict [(''status'', JNum n)])]"

definition delete_response :: "rat \<Rightarrow> rat \<Rightarrow> rat \<Rightarrow> rat \<Rightarrow> json" where
  "delete_response a b c d = JList
     [command_status ''FindEntity'' a, command_status ''FindBoundingBox'' b,
      command_status ''DeleteBoundingBox'' c, command_status ''DeleteEntity'' d]"

definition reconnaissance_response :: json where
  "reconnaissance_response = JList
     [command_status ''FindImage'' 0,
      JDict [(''FindBoundingBox'', JDict [(''returned'', JNum 0), (''status'', JNum 0)])]]"

definition mutation_response :: json where
  "mutation_response = JList
     [command_status ''FindImage'' 0, command_status ''AddEntity'' 2,
      command_status ''UpdateEntity'' 0, command_status ''AddBoundingBox'' 0,
      command_status ''AddConnection'' 0]"

definition annotation1 :: annotation where
  "annotation1 = \<lparr>ann_id = ''17'', ann_result = JList [img1_region],
     created_at = ''2024-01-01T00:00:00'', updated_at = ''2024-01-01T00:00:00'',
     project_title = JStr ''demo'', project_id = JNum 1,
     completed_by = None, updated_by = None,
     storage_filename = Some ''img1'', task_data = JDict [],
     serialized_data = JDict [(''id'', JNum 17), (''result'', JList [img1_region])]\<rparr>"

text \<open>
  A page of the key scan with the given keys; storages with the limits 1, 200 and,
  with the user constraints on the width, 1000.
\<close>

definition page_response :: "json list \<Rightarrow> json" where
  "page_response ks = JList [JDict [(''FindImage'', JDict
     [(''entities'', JList (map (\<lambda>k. JDict [(''_uniqueid'', k)]) ks)),
      (''returned'', JNum (of_nat (length ks))),
      (''status'', JNum 0)])]]"

definition storage1 :: ImportStorage where
  "storage1 = \<lparr>constraints = None, predictions = False, pred_constraints = None,
     limit = Some 1, last_iterkeys = None, bbox_annotation_cache = None\<rparr>"

definition storage200 :: ImportStorage where
  "storage200 = \<lparr>constraints = None, predictions = False, pred_constraints = None,
     limit = Some 200, last_iterkeys = None, bbox_annotation_cache = None\<rparr>"

definition storage_width_zero :: ImportStorage where
  "storage_width_zero = \<lparr>constraints = Some width_zero_text, predictions = False,
     pred_constraints = None, limit = Some 1000, last_iterkeys = None,
     bbox_annotation_cache = None\<rparr>"

text \<open>
  A response to the query of the reader: the images with the given keys, 800 by 600,
  and no annotation. \<open>storage_scanned\<close> is a storage as a scan leaves it after a page
  with the keys \<open>1.1\<close> and \<open>1.2\<close>.
\<close>

definition image_entity :: "json \<Rightarrow> json" where
  "image_entity k = JDict [(''_uniqueid'', k), (''width'', JNum 800), (''height'', JNum 600)]"

definition batch_response :: "json list \<Rightarrow> json" where
  "batch_response ks = JList
     [JDict [(''FindImage'', JDict
        [(''entities'', JList (map image_entity ks)),
         (''returned'', JNum (of_nat (length ks))),
         (''status'', JNum 0)])],
      JDict [(''FindEntity'', JDict [(''returned'', JNum 0), (''status'', JNum 0)])]]"


section \<open>Properties\<close>

subsection \<open>Results as values\<close>



lemma py_eq_JNum: "py_eq v (JNum r) \<longleftrightarrow> as_num v = Some r"
  by (cases v) auto



lemma init_Inr_I:
  assumes "map_of d ''original_width'' = Some ow" "map_of d ''original_height'' = Some oh"
    "map_of d ''image_rotation'' = Some ir" "py_eq ir (JNum 0)"
    "map_of d ''value'' = Some (JDict val)"
    "map_of val ''x'' = Some vx" "scale vx ow = Inr px"
    "map_of val ''y'' = Some vy" "scale vy oh = Inr py"
    "map_of val ''width'' = Some vw" "scale vw ow = Inr pw"
    "map_of val ''height'' = Some vh" "scale vh oh = Inr ph"
    "map_of val ''rotation'' = Some vr" "py_eq vr (JNum 0)"
    "check_labels (get_or_empty (JDict val) ''rectanglelabels'') = Inr ()"
  shows "AnnotationBBox_init (JDict d) =
     Inr \<lparr>original_width = ow, original_height = oh,
             rect = \<lparr>rect_x = px, rect_y = py, rect_width = pw, rect_height = ph\<rparr>,
             labels = get_or_empty (JDict val) ''rectanglelabels'',
             bbox_text = get_or_empty (JDict val) ''text''\<rparr>"
  using assms unfolding AnnotationBBox_init_def AnnotationBBox_get_def
  by (simp del: py_eq.simps)

subsection \<open>The pixel rectangle\<close>


lemmas img1_defs = img1_region_def img1_fields_def img1_value_def

lemma init_img1_region: "AnnotationBBox_init img1_region = Inr img1_box"
  by (simp add: img1_defs img1_box_def AnnotationBBox_init_def AnnotationBBox_get_def
      scale_def py_int_def check_labels_def get_or_empty_def)





subsection \<open>Merging two fragments\<close>

lemma py_eq_int_val [simp]: "py_eq (int_val a) (int_val b) = (a = b)"
  by (simp add: int_val_def)

lemma attr_must_match_cases:
  "attr_must_match a b attr =
   (if py_eq a b then Inr () else Inl (ValueError (''Annotations have mismatched '' @ attr)))"
  by (simp add: attr_must_match_def)






subsection \<open>The loop over the regions\<close>










lemmas bbox_eval =
  AnnotationBBox_init_def AnnotationBBox_get_def scale_def py_int_def check_labels_def
  get_or_empty_def AnnotationBBox_merge_def attr_must_match_def int_val_def


lemma init_img1_textarea_moved:
  "AnnotationBBox_init img1_textarea_moved =
     Inr (img1_box\<lparr>rect := (rect img1_box)\<lparr>rect_x := 160\<rparr>, labels := JList [],
                    bbox_text := JList [JStr ''hello'']\<rparr>)"
  by (simp add: img1_textarea_moved_def img1_box_def bbox_eval)

lemma init_labelled_region:
  "AnnotationBBox_init (labelled_region t) = Inr (img1_box\<lparr>bbox_text := JList [JStr t]\<rparr>)"
  by (simp add: labelled_region_def img1_box_def bbox_eval)

lemma init_plain_region:
  "AnnotationBBox_init (plain_region t) =
     Inr (img1_box\<lparr>labels := JList [], bbox_text := JList [JStr t]\<rparr>)"
  by (simp add: plain_region_def img1_box_def bbox_eval)

lemma img1_region_fields:
  "py_in ''type'' img1_region = Inr True"
  "py_getitem img1_region ''id'' = Inr (JStr ''r1'')"
  "py_getitem img1_region ''type'' = Inr (JStr ''rectanglelabels'')"
  by (simp_all add: img1_defs)



lemma labelled_region_fields:
  "py_in ''type'' (labelled_region t) = Inr True"
  "py_getitem (labelled_region t) ''id'' = Inr (JStr ''r1'')"
  "py_getitem (labelled_region t) ''type'' = Inr (JStr ''rectanglelabels'')"
  by (simp_all add: labelled_region_def)

lemma plain_region_fields:
  "py_in ''type'' (plain_region t) = Inr True"
  "py_getitem (plain_region t) ''id'' = Inr (JStr ''r1'')"
  "py_getitem (plain_region t) ''type'' = Inr (JStr ''rectangle'')"
  by (simp_all add: plain_region_def)

lemmas merge_eval = AnnotationBBox_merge_def attr_must_match_def check_labels_def int_val_def img1_box_def

lemma regions_img1_only:
  "merge_regions [] [img1_region] = Inr [(JStr ''r1'', img1_box)]"
  by (simp add: img1_region_fields init_img1_region del: py_in.simps py_getitem.simps)




lemma regions_labelled_plain:
  "merge_regions [] [labelled_region ''first'', plain_region ''second''] =
     Inr [(JStr ''r1'', img1_box\<lparr>bbox_text := JList [JStr ''first'', JStr ''second'']\<rparr>)]"
  by (simp add: labelled_region_fields plain_region_fields init_labelled_region init_plain_region
      merge_eval del: py_in.simps py_getitem.simps)

text \<open>
  Claim C2. When the other fragment constructs and differs from the box in
  \<^verbatim>\<open>original_width\<close>, \<^verbatim>\<open>original_height\<close> or a field of the pixel rectangle (by Python's
  \<^verbatim>\<open>!=\<close>), \<^verbatim>\<open>merge\<close> raises the \<open>ValueError\<close> of \<^verbatim>\<open>_attr_must_match\<close>: no mismatch is
  accepted.
\<close>

theorem merge_mismatch_raises:
  assumes "(case other of OtherBBox b \<Rightarrow> Inr b | OtherRaw ann \<Rightarrow> AnnotationBBox_init ann) = Inr b"
    and "\<not> py_eq (original_width self) (original_width b) \<or>
         \<not> py_eq (original_height self) (original_height b) \<or>
         rect_x (rect self) \<noteq> rect_x (rect b) \<or> rect_y (rect self) \<noteq> rect_y (rect b) \<or>
         rect_width (rect self) \<noteq> rect_width (rect b) \<or>
         rect_height (rect self) \<noteq> rect_height (rect b)"
  shows "\<exists>attr. AnnotationBBox_merge self other =
           Inl (ValueError (''Annotations have mismatched '' @ attr))"
  using assms
  by (auto simp del: py_eq.simps simp: AnnotationBBox_merge_def attr_must_match_cases)

theorem merge_mismatch_raises_witness:
  "AnnotationBBox_init img1_textarea_moved =
     Inr (img1_box\<lparr>rect := (rect img1_box)\<lparr>rect_x := 160\<rparr>, labels := JList [],
                    bbox_text := JList [JStr ''hello'']\<rparr>) \<and>
   rect_x (rect img1_box) = 80 \<and>
   (\<exists>attr. AnnotationBBox_merge img1_box (OtherRaw img1_textarea_moved) =
           Inl (ValueError (''Annotations have mismatched '' @ attr)))"
  using merge_mismatch_raises [of "OtherRaw img1_textarea_moved" _ img1_box]
    init_img1_textarea_moved
  by (simp add: img1_box_def)









subsection \<open>At most one label\<close>









subsection \<open>The status of a response\<close>

lemma command_status_status:
  "cmd \<noteq> ''status'' \<Longrightarrow> response_status (command_status cmd n) = Inr (JNum n)"
  by (simp add: command_status_def)

lemma delete_response_status:
  "response_status (delete_response a b c d) = Inr (JNum (max (max (max a b) c) d))"
  by (simp add: delete_response_def command_status_status max_def)

lemma status_accepted_iff: "status_accepted s \<longleftrightarrow> as_num s = Some 0 \<or> as_num s = Some 2"
  by (simp add: status_accepted_def py_eq_JNum del: py_eq.simps)

lemma delete_annotation_result:
  assumes "response_status (fst (db (store_state conn) (delete_query (ann_id a)))) = Inr status"
  shows "fst (delete_annotation db conn a) =
     (if status_accepted status then Inr ()
      else Inl (ValueError ''Error deleting annotation data from ApertureDB''))"
  using assms
  by (cases "db (store_state conn) (delete_query (ann_id a))")
    (simp add: delete_annotation_def db_query_def)

lemma save_annotation_result:
  assumes "save_annotation_query dumps db conn a = (Inr q, conn1)"
    and "response_status (fst (db (store_state conn1) q)) = Inr status"
  shows "fst (save_annotation dumps db conn a) =
     (if status_accepted status then Inr ()
      else Inl (ValueError ''Error saving annotation data to ApertureDB''))"
  using assms
  by (cases "db (store_state conn1) q") (simp add: save_annotation_def db_query_def)




lemma reconnaissance_response_status:
  "response_status reconnaissance_response = Inr (JNum 0)"
  by (simp add: reconnaissance_response_def command_status_status)

lemma mutation_response_status:
  "response_status mutation_response = Inr (JNum 2)"
  by (simp add: mutation_response_def command_status_status)

lemma bbox_id_fields_reconnaissance:
  "bbox_id_fields m reconnaissance_response = Inr []"
  by (simp add: bbox_id_fields_def reconnaissance_response_def)

lemma image_id_annotation1: "image_id annotation1 = Inr ''img1''"
  by (simp add: image_id_def annotation1_def)

lemma box_label_img1: "box_label img1_box = Inr (JStr ''cat'')"
  by (simp add: box_label_def img1_box_def)

lemma save_annotation_query_annotation1:
  "\<exists>q c. save_annotation_query dumps (scripted_store [reconnaissance_response, mutation_response])
       conn0 annotation1 = (Inr q, c) \<and> store_state c = 1"
proof -
  have r: "regions_of (ann_result annotation1) = [img1_region]"
    by (simp add: annotation1_def regions_of_def)
  have q: "db_query (scripted_store [reconnaissance_response, mutation_response]) conn0
      (reconnaissance_query ''img1'') =
      (reconnaissance_response,
       \<lparr>store_state = 1, calls = [(reconnaissance_query ''img1'', reconnaissance_response)]\<rparr>)"
    by (simp add: db_query_def scripted_store_def conn0_def)
  show ?thesis
    unfolding save_annotation_query_def r regions_img1_only image_id_annotation1
    by (simp add: q reconnaissance_response_status bbox_id_fields_reconnaissance box_label_img1)
qed

text \<open>
  Claim C9. When \<^verbatim>\<open>save_annotation\<close> reaches its second query, and for
  \<^verbatim>\<open>delete_annotation\<close>, the status of the store's response decides alone: a status
  equal to 0 or 2 makes the call return, any other status makes it raise the
  \<open>ValueError\<close> of the operation. A delete answered with status 2 returns.
\<close>

theorem write_status_accepted:
  "(save_annotation_query dumps db conn a = (Inr q, conn1) \<and>
      response_status (fst (db (store_state conn1) q)) = Inr status \<longrightarrow>
      fst (save_annotation dumps db conn a) =
        (if status_accepted status then Inr ()
         else Inl (ValueError ''Error saving annotation data to ApertureDB''))) \<and>
   (response_status (fst (db (store_state conn) (delete_query (ann_id a)))) = Inr status' \<longrightarrow>
      fst (delete_annotation db conn a) =
        (if status_accepted status' then Inr ()
         else Inl (ValueError ''Error deleting annotation data from ApertureDB''))) \<and>
   (status_accepted s \<longleftrightarrow> as_num s = Some 0 \<or> as_num s = Some 2)"
proof (intro conjI impI)
  assume "save_annotation_query dumps db conn a = (Inr q, conn1) \<and>
      response_status (fst (db (store_state conn1) q)) = Inr status"
  then show "fst (save_annotation dumps db conn a) =
        (if status_accepted status then Inr ()
         else Inl (ValueError ''Error saving annotation data to ApertureDB''))"
    by (elim conjE) (rule save_annotation_result)
next
  assume "response_status (fst (db (store_state conn) (delete_query (ann_id a)))) = Inr status'"
  then show "fst (delete_annotation db conn a) =
        (if status_accepted status' then Inr ()
         else Inl (ValueError ''Error deleting annotation data from ApertureDB''))"
    by (rule delete_annotation_result)
next
  show "status_accepted s \<longleftrightarrow> as_num s = Some 0 \<or> as_num s = Some 2"
    by (rule status_accepted_iff)
qed

theorem write_status_accepted_witness:
  "fst (save_annotation example_dumps (scripted_store [reconnaissance_response, mutation_response])
          conn0 annotation1) = Inr () \<and>
   response_status (delete_response 0 0 2 2) = Inr (JNum 2) \<and>
   fst (delete_annotation (scripted_store [delete_response 0 0 2 2]) conn0 annotation1) = Inr () \<and>
   fst (delete_annotation (scripted_store [delete_response 0 0 0 3]) conn0 annotation1) =
     Inl (ValueError ''Error deleting annotation data from ApertureDB'')"
proof -
  let ?db = "scripted_store [reconnaissance_response, mutation_response]"
  from save_annotation_query_annotation1 [of example_dumps] obtain q c where
    q: "save_annotation_query example_dumps ?db conn0 annotation1 = (Inr q, c)" and c: "store_state c = 1"
    by (elim exE conjE)
  have r: "response_status (fst (?db (store_state c) q)) = Inr (JNum 2)"
    unfolding c by (simp add: scripted_store_def mutation_response_status)
  have s: "fst (save_annotation example_dumps ?db conn0 annotation1) = Inr ()"
    using mp [OF conjunct1 [OF write_status_accepted
        [where dumps = example_dumps and db = ?db and conn = conn0 and a = annotation1 and q = q
           and ?conn1.0 = c and status = "JNum 2"]] conjI [OF q r]]
    by (simp add: status_accepted_iff)
  have d2: "response_status
      (fst (scripted_store [delete_response 0 0 2 2] (store_state conn0)
         (delete_query (ann_id annotation1)))) = Inr (JNum 2)"
    by (simp add: scripted_store_def conn0_def delete_response_status)
  have d3: "response_status
      (fst (scripted_store [delete_response 0 0 0 3] (store_state conn0)
         (delete_query (ann_id annotation1)))) = Inr (JNum 3)"
    by (simp add: scripted_store_def conn0_def delete_response_status)
  show ?thesis
    using s delete_response_status [of 0 0 2 2]
      mp [OF conjunct1 [OF conjunct2 [OF write_status_accepted
        [where db = "scripted_store [delete_response 0 0 2 2]" and conn = conn0
           and a = annotation1 and status' = "JNum 2"]]] d2]
      mp [OF conjunct1 [OF conjunct2 [OF write_status_accepted
        [where db = "scripted_store [delete_response 0 0 0 3]" and conn = conn0
           and a = annotation1 and status' = "JNum 3"]]] d3]
    by (simp add: status_accepted_iff)
qed







subsection \<open>The key scan\<close>

lemma db_query_calls:
  "db_query db conn q = (res, conn') \<Longrightarrow> calls conn' = calls conn @ [(q, res)]"
  by (auto simp: db_query_def split: prod.splits)

lemma pages_bound:
  fixes n offset :: nat
  assumes "offset < n"
  shows "Suc ((n - (offset + 100) + 99) div 100) \<le> (n - offset + 99) div 100"
proof (cases "n - offset < 100")
  case True
  then have "n - (offset + 100) = 0" by simp
  moreover have "100 \<le> n - offset + 99" using assms by simp
  then have "0 < (n - offset + 99) div 100" by (simp add: div_greater_zero_iff)
  ultimately show ?thesis by simp
next
  case False
  then obtain j where j: "n - offset = 100 + j"
    by (metis le_iff_add not_less)
  then have "n - (offset + 100) = j" by simp
  moreover have "(100 + j + 99) div 100 = Suc ((j + 99) div 100)"
    by (simp add: add.assoc)
  ultimately show ?thesis using j by simp
qed

lemma iterkeys_loop_run:
  assumes "limit self = Some n" "0 < n"
  shows "\<exists>r new. iterkeys_loop db find_images offset out self conn = Some r \<and>
     calls (scan_conn r) = calls conn @ new \<and>
     length new \<le> (n - offset + 99) div 100 \<and>
     yielded r = out @ concat (map (\<lambda>c. response_ids (snd c)) new)"
  using assms(1)
proof (induction "n - offset" arbitrary: offset out self conn find_images rule: less_induct)
  case less
  note lim = less.prems
  show ?case
  proof (cases "offset < n")
    case False
    then have "iterkeys_loop db find_images offset out self conn =
        Some \<lparr>yielded = out, raised = None, scan_self = self, scan_conn = conn\<rparr>"
      using lim assms(2) by (subst iterkeys_loop.simps) simp
    then show ?thesis by simp
  next
    case True
    let ?fi = "dict_set ''offset'' (JNum (of_nat offset)) find_images"
    let ?q = "find_image_query ?fi"
    obtain res conn' where q: "db_query db conn ?q = (res, conn')"
      by (cases "db_query db conn ?q")
    note c = db_query_calls [OF q]
    have one: "1 \<le> (n - offset + 99) div 100"
      using True by arith
    show ?thesis
    proof (cases "page_ids res")
      case (Inl e)
      then have "iterkeys_loop db find_images offset out self conn =
          Some \<lparr>yielded = out, raised = Some e, scan_self = self, scan_conn = conn'\<rparr>"
        using lim True q by (subst iterkeys_loop.simps) simp
      moreover have "response_ids res = []" using Inl by (simp add: response_ids_def)
      ultimately show ?thesis using c one
        by (intro exI [of _ "\<lparr>yielded = out, raised = Some e, scan_self = self, scan_conn = conn'\<rparr>"]
            exI [of _ "[(?q, res)]"]) simp
    next
      case (Inr p)
      show ?thesis
      proof (cases p)
        case None
        then have "iterkeys_loop db find_images offset out self conn =
            Some \<lparr>yielded = out, raised = None, scan_self = self, scan_conn = conn'\<rparr>"
          using lim True q Inr by (subst iterkeys_loop.simps) simp
        moreover have "response_ids res = []" using Inr None by (simp add: response_ids_def)
        ultimately show ?thesis using c one
          by (intro exI [of _ "\<lparr>yielded = out, raised = None, scan_self = self, scan_conn = conn'\<rparr>"]
              exI [of _ "[(?q, res)]"]) simp
      next
        case (Some ids)
        let ?self = "self\<lparr>last_iterkeys := Some (py_set ids), bbox_annotation_cache := Some []\<rparr>"
        have step: "iterkeys_loop db find_images offset out self conn =
            iterkeys_loop db ?fi (offset + 100) (out @ ids) ?self conn'"
          using lim True q Inr Some by (subst iterkeys_loop.simps) simp
        have ids: "response_ids res = ids" using Inr Some by (simp add: response_ids_def)
        have "n - (offset + 100) < n - offset" using True by arith
        moreover have "limit ?self = Some n" using lim by simp
        ultimately obtain r new where
          r: "iterkeys_loop db ?fi (offset + 100) (out @ ids) ?self conn' = Some r"
            "calls (scan_conn r) = calls conn' @ new"
            "length new \<le> (n - (offset + 100) + 99) div 100"
            "yielded r = (out @ ids) @ concat (map (\<lambda>c. response_ids (snd c)) new)"
          using less.hyps [of "offset + 100" ?self ?fi "out @ ids" conn'] by blast
        have "length ((?q, res) # new) \<le> (n - offset + 99) div 100"
          using r(3) pages_bound [OF True] by simp
        then show ?thesis using step r(1,2,4) c ids
          by (intro exI [of _ r] exI [of _ "(?q, res) # new"]) simp
      qed
    qed
  qed
qed

lemma sequence_uniqueids:
  "sequence (map ((\<lambda>ent. py_getitem ent ''_uniqueid'') \<circ> (\<lambda>k. JDict [(''_uniqueid'', k)])) ks) =
   Inr ks"
  by (induction ks) simp_all

lemma page_ids_page_response:
  "page_ids (page_response ks) =
     (if ks = [] then Inr None
      else if list_all hashable ks then Inr (Some ks) else Inl TypeError)"
  by (simp add: page_ids_def page_response_def sequence_uniqueids)

lemma find_images_init_no_constraints:
  "constraints self = None \<Longrightarrow>
   find_images_init loads self = Inr (find_images_document internal_constraints)"
  by (simp add: find_images_init_def)

lemma scripted_query:
  "db_query (scripted_store rs) \<lparr>store_state = i, calls = cs\<rparr> q =
     (if i < length rs then rs ! i else JNull,
      \<lparr>store_state = Suc i, calls = cs @ [(q, if i < length rs then rs ! i else JNull)]\<rparr>)"
  by (simp add: db_query_def scripted_store_def)

lemma iterkeys_storage1:
  "iterkeys example_loads (scripted_store [page_response [JStr ''1.1'', JStr ''1.2'']]) storage1 conn0 =
     Some \<lparr>yielded = [JStr ''1.1'', JStr ''1.2''], raised = None,
           scan_self = storage1\<lparr>last_iterkeys := Some [JStr ''1.1'', JStr ''1.2''],
                                 bbox_annotation_cache := Some []\<rparr>,
           scan_conn = \<lparr>store_state = 1,
             calls = [(find_image_query
                 (dict_set ''offset'' (JNum 0) (find_images_document internal_constraints)),
               page_response [JStr ''1.1'', JStr ''1.2''])]\<rparr>\<rparr>"
proof -
  have l: "limit storage1 = Some 1" "constraints storage1 = None"
    by (simp_all add: storage1_def)
  show ?thesis
    unfolding iterkeys_def find_images_init_no_constraints [OF l(2)] conn0_def
    apply simp
    apply (subst iterkeys_loop.simps)
    apply (simp add: l scripted_query page_ids_page_response py_set_def)
    apply (subst iterkeys_loop.simps)
    apply (simp add: l)
    done
qed

lemma length_concat_bound:
  "list_all (\<lambda>c. length (f c) \<le> b) xs \<Longrightarrow> length (concat (map f xs)) \<le> b * length xs"
  by (induction xs) auto

lemma yielded_storage200:
  "map_option yielded
     (iterkeys example_loads
        (scripted_store [page_response [JStr ''1.1'', JStr ''1.2''],
                         page_response [JStr ''1.2'', JStr ''1.3'']]) storage200 conn0) =
   Some [JStr ''1.1'', JStr ''1.2'', JStr ''1.2'', JStr ''1.3'']"
proof -
  have l: "limit storage200 = Some 200" "constraints storage200 = None"
    by (simp_all add: storage200_def)
  show ?thesis
    unfolding iterkeys_def find_images_init_no_constraints [OF l(2)] conn0_def
    apply simp
    apply (subst iterkeys_loop.simps)
    apply (simp add: l scripted_query page_ids_page_response)
    apply (subst iterkeys_loop.simps)
    apply (simp add: l scripted_query page_ids_page_response)
    apply (subst iterkeys_loop.simps)
    apply (simp add: l)
    done
qed

text \<open>
  Claim C3, as stated, fails. With the limit 1 a scan yields both keys of its one page;
  with the limit 200 and two pages that share a key, it yields that key twice.
\<close>

theorem scan_limit_counterexample:
  "limit storage1 = Some 1 \<and>
   map_option yielded
     (iterkeys example_loads (scripted_store [page_response [JStr ''1.1'', JStr ''1.2'']])
        storage1 conn0) = Some [JStr ''1.1'', JStr ''1.2''] \<and>
   length [JStr ''1.1'', JStr ''1.2''] > (1 :: nat) \<and>
   limit storage200 = Some 200 \<and>
   map_option yielded
     (iterkeys example_loads
        (scripted_store [page_response [JStr ''1.1'', JStr ''1.2''],
                         page_response [JStr ''1.2'', JStr ''1.3'']]) storage200 conn0) =
     Some [JStr ''1.1'', JStr ''1.2'', JStr ''1.2'', JStr ''1.3''] \<and>
   distinct [JStr ''1.1'', JStr ''1.2'', JStr ''1.2'', JStr ''1.3''] = False"
  using iterkeys_storage1 yielded_storage200
  by (simp add: storage1_def storage200_def)

text \<open>
  Claim C3, amended. With a limit of at least 1 a scan ends after at most
  \<open>\<lceil>limit / 100\<rceil>\<close> page queries, and it yields the keys of the pages it received, in
  order and as often as the pages hold them. So it yields at most
  \<open>100 * \<lceil>limit / 100\<rceil>\<close> keys when no page holds more than the 100 keys its query asks
  for, and it repeats a key only when the pages do.
\<close>

theorem scan_yields_pages:
  assumes "limit self = Some n" "0 < n"
  shows "\<exists>r. iterkeys loads db self conn = Some r \<and>
     length (new_calls conn (scan_conn r)) \<le> (n + 99) div 100 \<and>
     yielded r = concat (map (\<lambda>c. response_ids (snd c)) (new_calls conn (scan_conn r))) \<and>
     (list_all (\<lambda>c. length (response_ids (snd c)) \<le> 100) (new_calls conn (scan_conn r)) \<longrightarrow>
        length (yielded r) \<le> 100 * ((n + 99) div 100))"
proof (cases "find_images_init loads self")
  case (Inl e)
  then have "iterkeys loads db self conn =
      Some \<lparr>yielded = [], raised = Some e, scan_self = self, scan_conn = conn\<rparr>"
    by (simp add: iterkeys_def)
  then show ?thesis by (simp add: new_calls_def)
next
  case (Inr find_images)
  then have i: "iterkeys loads db self conn = iterkeys_loop db find_images 0 [] self conn"
    by (simp add: iterkeys_def)
  from iterkeys_loop_run [OF assms, of db find_images 0 "[]" conn] obtain r new where
    r: "iterkeys_loop db find_images 0 [] self conn = Some r"
      "calls (scan_conn r) = calls conn @ new"
      "length new \<le> (n + 99) div 100"
      "yielded r = concat (map (\<lambda>c. response_ids (snd c)) new)"
    by auto
  have n: "new_calls conn (scan_conn r) = new"
    using r(2) by (simp add: new_calls_def)
  have "length (yielded r) \<le> 100 * ((n + 99) div 100)"
    if "list_all (\<lambda>c. length (response_ids (snd c)) \<le> 100) new"
  proof -
    from that have "length (yielded r) \<le> 100 * length new"
      unfolding r(4) by (rule length_concat_bound)
    also have "\<dots> \<le> 100 * ((n + 99) div 100)" using r(3) by simp
    finally show ?thesis .
  qed
  with i r(1,3,4) show ?thesis
    by (intro exI [of _ r]) (simp add: n)
qed

theorem scan_yields_pages_witness:
  "\<exists>r. iterkeys example_loads (scripted_store [page_response [JStr ''1.1'', JStr ''1.2'']])
         storage1 conn0 = Some r \<and>
     yielded r = [JStr ''1.1'', JStr ''1.2''] \<and>
     length (new_calls conn0 (scan_conn r)) \<le> (1 + 99) div 100 \<and>
     yielded r = concat (map (\<lambda>c. response_ids (snd c)) (new_calls conn0 (scan_conn r))) \<and>
     length (yielded r) \<le> 100 * ((1 + 99) div 100)"
proof -
  have l: "limit storage1 = Some 1" by (simp add: storage1_def)
  from scan_yields_pages [OF l, of example_loads
      "scripted_store [page_response [JStr ''1.1'', JStr ''1.2'']]" conn0]
  show ?thesis
    unfolding iterkeys_storage1
    by (simp add: new_calls_def conn0_def response_ids_def page_ids_page_response)
qed

text \<open>
  Claim C4 against the code. With the user constraints \<^verbatim>\<open>{"width": ["==", 0]}\<close> the
  document of the page query holds the user's constraint on the width in place of the
  internal one, and the page query of the scan is sent with it.
\<close>

theorem user_constraint_replaces_internal:
  "constraints storage_width_zero = Some width_zero_text \<and>
   example_loads width_zero_text = Inr (JDict [(''width'', JList [JStr ''=='', JNum 0])]) \<and>
   find_images_init example_loads storage_width_zero =
     Inr [(''uniqueids'', JBool True), (''blobs'', JBool False), (''limit'', JNum 100),
          (''constraints'', JDict [(''width'', JList [JStr ''=='', JNum 0]),
                                   (''height'', JList [JStr ''>'', JNum 0])])] \<and>
   map_option (\<lambda>r. map fst (calls (scan_conn r)))
     (iterkeys example_loads (scripted_store [page_response []]) storage_width_zero conn0) =
     Some [JList [JDict [(''FindImage'', JDict
       [(''uniqueids'', JBool True), (''blobs'', JBool False), (''limit'', JNum 100),
        (''constraints'', JDict [(''width'', JList [JStr ''=='', JNum 0]),
                                 (''height'', JList [JStr ''>'', JNum 0])]),
        (''offset'', JNum 0)])]]]"
proof -
  have c: "constraints storage_width_zero = Some width_zero_text"
    "limit storage_width_zero = Some 1000"
    by (simp_all add: storage_width_zero_def)
  have t: "width_zero_text \<noteq> []" by (simp add: width_zero_text_def)
  have f: "find_images_init example_loads storage_width_zero =
     Inr [(''uniqueids'', JBool True), (''blobs'', JBool False), (''limit'', JNum 100),
          (''constraints'', JDict [(''width'', JList [JStr ''=='', JNum 0]),
                                   (''height'', JList [JStr ''>'', JNum 0])])]"
    by (simp add: find_images_init_def c t example_loads_def find_images_document_def
        internal_constraints_def)
  show ?thesis
    unfolding iterkeys_def f conn0_def
    apply (simp add: c example_loads_def)
    apply (subst iterkeys_loop.simps)
    apply (simp add: c scripted_query page_ids_page_response find_image_query_def)
    done
qed

subsection \<open>The annotation cache\<close>


lemma batch_images_query_error:
  "batch_query loads self keys project = Inl e \<Longrightarrow>
   batch_images loads db self conn keys project = (Inl e, conn)"
  by (simp add: batch_images_def)












lemma batch_item_entity:
  assumes "\<not> predictions self"
  shows "batch_item loads repr self (batch_response ks) (image_entity (JStr s)) =
     Inr (JStr s, [], [])"
  using assms
  by (simp add: batch_item_def image_entity_def grouped_def batch_response_def)


lemma batch_cache_entities_two:
  assumes "\<not> predictions self" "a \<noteq> b"
  shows "batch_cache loads repr self (batch_response ks) []
       [image_entity (JStr a), image_entity (JStr b)] =
     Inr [(JStr a, [], []), (JStr b, [], [])]"
  using assms(2) by (simp add: batch_item_entity [OF assms(1)])








end
